theory Spec2Isabelle
  imports Complex_Main
begin

section \<open>The report page of Rutas Logisticas\<close>

text \<open>
  A shallow embedding of \<^verbatim>\<open>ReportesComponent\<close>
  (\<^verbatim>\<open>src/Frontend/src/app/pages/reportes/reportes.ts\<close>). Every method of the
  component is a function from the component's fields to the new fields; what a method
  hands to the browser (an HTTP request, a timer, a file download) is returned beside
  them as a list of effects, and a \<^verbatim>\<open>TypeError\<close> is a value.
\<close>

subsection \<open>Strings\<close>

text \<open>
  A string is a \<^typ>\<open>string\<close>: a character of the source outside ASCII is the bytes
  of its UTF-8 encoding. \<^verbatim>\<open>toLowerCase\<close> and \<^verbatim>\<open>toUpperCase\<close> are modelled on the
  letters A to Z, the only cased letters of the literals they are compared with; a byte
  above 127 is left as it is. The host's functions map every cased letter of Unicode, so
  a status, a filter value or a category with a cased letter outside A to Z (an accented
  capital, say) is outside the model: no statement below is about such a text, except
  through a comparison with one of the ASCII literals of the source, which no letter
  outside A to Z can meet.
\<close>

definition lower_char :: "char \<Rightarrow> char" where
  "lower_char c =
     (case map_of (zip ''ABCDEFGHIJKLMNOPQRSTUVWXYZ'' ''abcdefghijklmnopqrstuvwxyz'') c of
        Some d \<Rightarrow> d
      | None \<Rightarrow> c)"

definition upper_char :: "char \<Rightarrow> char" where
  "upper_char c =
     (case map_of (zip ''abcdefghijklmnopqrstuvwxyz'' ''ABCDEFGHIJKLMNOPQRSTUVWXYZ'') c of
        Some d \<Rightarrow> d
      | None \<Rightarrow> c)"

definition toLowerCase :: "string \<Rightarrow> string" where
  "toLowerCase s = map lower_char s"

definition toUpperCase :: "string \<Rightarrow> string" where
  "toUpperCase s = map upper_char s"

text \<open>\<^verbatim>\<open>s.charAt(0)\<close> is the empty string on the empty string; \<^verbatim>\<open>s.slice(1)\<close> drops
  the first character. Both are exact when the string starts with an ASCII character.\<close>

definition charAt0 :: "string \<Rightarrow> string" where
  "charAt0 s = take 1 s"

definition slice1 :: "string \<Rightarrow> string" where
  "slice1 s = drop 1 s"

text \<open>\<^verbatim>\<open>s.includes(t)\<close>: \<open>t\<close> occurs in \<open>s\<close> as a substring.\<close>

fun starts_with :: "string \<Rightarrow> string \<Rightarrow> bool" where
  "starts_with s [] = True"
| "starts_with [] (d # t) = False"
| "starts_with (c # s) (d # t) = (c = d \<and> starts_with s t)"

fun includes_str :: "string \<Rightarrow> string \<Rightarrow> bool" where
  "includes_str [] t = (t = [])"
| "includes_str (c # s) t = (starts_with (c # s) t \<or> includes_str s t)"

subsection \<open>Values of the backend's JSON\<close>

text \<open>
  The fields of a record are \<^verbatim>\<open>any\<close>. An object is the list of its own properties in
  the order \<^verbatim>\<open>Object.keys\<close> gives them. \<open>JHost k\<close> is what a read of the property
  \<open>k\<close> finds on \<^verbatim>\<open>Object.prototype\<close> when the object has no property of its own
  under that name: a function of the host, or for \<^verbatim>\<open>__proto__\<close> the prototype
  object.
\<close>

datatype jsval =
    JUndefined
  | JNull
  | JBool bool
  | JNum real
  | JStr string
  | JArr "jsval list"
  | JObj "(string \<times> jsval) list"
  | JHost string

type_synonym objeto = "(string \<times> jsval) list"

datatype excepcion = TypeError

definition object_prototype_keys :: "string list" where
  "object_prototype_keys =
     [''constructor'', ''__proto__'', ''hasOwnProperty'', ''isPrototypeOf'',
      ''propertyIsEnumerable'', ''toLocaleString'', ''toString'', ''valueOf'',
      ''__defineGetter__'', ''__defineSetter__'', ''__lookupGetter__'',
      ''__lookupSetter__'']"

text \<open>\<^verbatim>\<open>o[k]\<close> on an object: its own property, else the prototype's, else
  \<^verbatim>\<open>undefined\<close>.\<close>

definition get_prop :: "objeto \<Rightarrow> string \<Rightarrow> jsval" where
  "get_prop obj k =
     (case map_of obj k of
        Some v \<Rightarrow> v
      | None \<Rightarrow> if k \<in> set object_prototype_keys then JHost k else JUndefined)"

text \<open>\<^verbatim>\<open>typeof v\<close>.\<close>

fun typeof :: "jsval \<Rightarrow> string" where
  "typeof JUndefined = ''undefined''"
| "typeof JNull = ''object''"
| "typeof (JBool b) = ''boolean''"
| "typeof (JNum n) = ''number''"
| "typeof (JStr s) = ''string''"
| "typeof (JArr xs) = ''object''"
| "typeof (JObj ps) = ''object''"
| "typeof (JHost k) = (if k = ''__proto__'' then ''object'' else ''function'')"

text \<open>
  \<^verbatim>\<open>v?.toLowerCase()\<close>: \<^verbatim>\<open>undefined\<close> on \<^verbatim>\<open>null\<close> and
  \<^verbatim>\<open>undefined\<close>, the lowered string on a string; any other value has no
  \<^verbatim>\<open>toLowerCase\<close> to call, which raises a \<^verbatim>\<open>TypeError\<close>.
\<close>

fun toLowerCase_opt :: "jsval \<Rightarrow> excepcion + jsval" where
  "toLowerCase_opt JUndefined = Inr JUndefined"
| "toLowerCase_opt JNull = Inr JUndefined"
| "toLowerCase_opt (JStr s) = Inr (JStr (toLowerCase s))"
| "toLowerCase_opt v = Inl TypeError"

text \<open>
  \<^verbatim>\<open>c.includes(x)\<close> where \<open>c\<close> is an array or a value found on
  \<^verbatim>\<open>Object.prototype\<close>: membership in the array; the host's values have no
  \<^verbatim>\<open>includes\<close> to call. (No other receiver reaches a call of it in the component.)
\<close>

fun includes_val :: "jsval \<Rightarrow> jsval \<Rightarrow> excepcion + bool" where
  "includes_val (JArr xs) x = Inr (x \<in> set xs)"
| "includes_val c x = Inl TypeError"

text \<open>\<^verbatim>\<open>xs.filter(p)\<close> with a callback that may raise: the first raise ends it.\<close>

fun filter_js :: "('a \<Rightarrow> excepcion + bool) \<Rightarrow> 'a list \<Rightarrow> excepcion + 'a list" where
  "filter_js p [] = Inr []"
| "filter_js p (x # xs) =
     (case p x of
        Inl e \<Rightarrow> Inl e
      | Inr b \<Rightarrow>
          (case filter_js p xs of
             Inl e \<Rightarrow> Inl e
           | Inr ys \<Rightarrow> Inr (if b then x # ys else ys)))"

subsection \<open>The component\<close>

record filtros_reporte =
  fechaInicio :: string
  fechaFin :: string
  estado :: string
  estadoPedido :: string
  tipoVehiculo :: string
  clienteId :: string
  conductorId :: string

record estadistica =
  label :: string
  value' :: int

record componente =
  tipoReporte :: string
  datosReporte :: "objeto list"
  tituloReporte :: string
  loading :: bool
  error :: "string option"
  filtros :: filtros_reporte
  estadisticasResumen :: "estadistica list"

definition apiUrl :: string where
  "apiUrl = ''http://localhost:8000/api/v1''"

definition seleccionarReporte :: "string \<Rightarrow> componente \<Rightarrow> componente" where
  "seleccionarReporte tipo s =
     s\<lparr>tipoReporte := tipo,
       datosReporte := [],
       error := None,
       estadisticasResumen := [],
       tituloReporte := ''Reporte de '' @ toUpperCase (charAt0 tipo) @ slice1 tipo\<rparr>"

text \<open>
  What the component hands to the browser. \<open>HttpGet url params\<close> is
  \<^verbatim>\<open>this.http.get(url, { params })\<close>; \<open>SetTimeout a ms\<close> is
  \<^verbatim>\<open>setTimeout(a, ms)\<close>, and the only callback the component ever schedules is
  \<^verbatim>\<open>() => this.error = null\<close>; \<open>Descarga nombre contenido\<close> is the click on the
  download link of a blob. The calls of \<^verbatim>\<open>console\<close> are left out.
\<close>

datatype accion = BorrarError

datatype efecto =
    HttpGet string "(string \<times> string) list"
  | SetTimeout accion nat
  | Descarga string string

fun ejecutar :: "accion \<Rightarrow> componente \<Rightarrow> componente" where
  "ejecutar BorrarError s = s\<lparr>error := None\<rparr>"

subsection \<open>generarReporte: the request\<close>

text \<open>
  Lines 49 to 77: the URL and the query parameters. The fields of \<^verbatim>\<open>filtros\<close> are
  the inputs of the form and are modelled as strings: such a field is falsy exactly when
  it is empty. No branch of the chain takes a category that is none of the four, and
  \<^verbatim>\<open>url\<close> keeps the empty string it was initialised with.
\<close>

definition generarReporte_consulta :: "componente \<Rightarrow> string \<times> (string \<times> string) list" where
  "generarReporte_consulta s =
     (let f = filtros s in
      if tipoReporte s = ''pedidos'' then
        (if fechaInicio f \<noteq> [] \<and> fechaFin f \<noteq> [] then
           (apiUrl @ ''/reports/orders-by-date'',
            [(''start_date'', fechaInicio f), (''end_date'', fechaFin f)])
         else if clienteId f \<noteq> [] then
           (apiUrl @ ''/reports/orders-by-client/'' @ clienteId f, [])
         else (apiUrl @ ''/orders'', []))
      else if tipoReporte s = ''clientes'' then (apiUrl @ ''/clients'', [])
      else if tipoReporte s = ''vehiculos'' then (apiUrl @ ''/vehicles'', [])
      else if tipoReporte s = ''conductores'' then
        (apiUrl @ ''/reports/routes-completed-by-driver/''
           @ (if conductorId f \<noteq> [] then conductorId f else ''1''), [])
      else ([], []))"

text \<open>The synchronous part of \<^verbatim>\<open>generarReporte\<close>: it ends with the request sent.\<close>

definition generarReporte :: "componente \<Rightarrow> componente \<times> efecto list" where
  "generarReporte s0 =
     (let s = s0\<lparr>error := None, loading := True\<rparr>;
          (url, params) = generarReporte_consulta s
      in (s, [HttpGet url params]))"

subsection \<open>calcularEstadisticas\<close>

text \<open>The callbacks of the counts: \<^verbatim>\<open>names.includes(p.status?.toLowerCase())\<close> and
  \<^verbatim>\<open>c.status?.toLowerCase() === name\<close>.\<close>

definition status_en :: "string list \<Rightarrow> objeto \<Rightarrow> excepcion + bool" where
  "status_en nombres p =
     (case toLowerCase_opt (get_prop p ''status'') of
        Inl e \<Rightarrow> Inl e
      | Inr v \<Rightarrow> includes_val (JArr (map JStr nombres)) v)"

definition campo_es :: "string \<Rightarrow> string \<Rightarrow> objeto \<Rightarrow> excepcion + bool" where
  "campo_es campo nombre c =
     (case toLowerCase_opt (get_prop c campo) of
        Inl e \<Rightarrow> Inl e
      | Inr v \<Rightarrow> Inr (v = JStr nombre))"

definition completados :: "string list" where
  "completados = [''completado'', ''entregado'', ''delivered'']"

definition pendientes :: "string list" where
  "pendientes = [''pendiente'', ''pending'']"

definition enProceso :: "string list" where
  "enProceso = [''asignado'', ''en_proceso'', ''in_transit'']"

text \<open>
  A raise inside one of the counts leaves the method before it assigns
  \<^verbatim>\<open>estadisticasResumen\<close>, so the fields are as they were.
\<close>

definition calcularEstadisticas :: "componente \<Rightarrow> excepcion + componente" where
  "calcularEstadisticas s =
     (let datos = datosReporte s; total = int (length datos) in
      if tipoReporte s = ''pedidos'' then
        (case filter_js (status_en completados) datos of
           Inl e \<Rightarrow> Inl e
         | Inr cs \<Rightarrow>
        (case filter_js (status_en pendientes) datos of
           Inl e \<Rightarrow> Inl e
         | Inr ps \<Rightarrow>
        (case filter_js (status_en enProceso) datos of
           Inl e \<Rightarrow> Inl e
         | Inr es \<Rightarrow>
             Inr (s\<lparr>estadisticasResumen :=
               [\<lparr>label = ''Total'', value' = total\<rparr>,
                \<lparr>label = ''Completados'', value' = int (length cs)\<rparr>,
                \<lparr>label = ''En Proceso'', value' = int (length es)\<rparr>,
                \<lparr>label = ''Pendientes'', value' = int (length ps)\<rparr>]\<rparr>))))
      else if tipoReporte s = ''clientes'' then
        (case filter_js (campo_es ''status'' ''activo'') datos of
           Inl e \<Rightarrow> Inl e
         | Inr acs \<Rightarrow>
             Inr (s\<lparr>estadisticasResumen :=
               [\<lparr>label = ''Total'', value' = total\<rparr>,
                \<lparr>label = ''Activos'', value' = int (length acs)\<rparr>,
                \<lparr>label = ''Inactivos'', value' = total - int (length acs)\<rparr>]\<rparr>))
      else if tipoReporte s = ''vehiculos'' then
        (case filter_js (campo_es ''status'' ''disponible'') datos of
           Inl e \<Rightarrow> Inl e
         | Inr ds \<Rightarrow>
             Inr (s\<lparr>estadisticasResumen :=
               [\<lparr>label = ''Total'', value' = total\<rparr>,
                \<lparr>label = ''Disponibles'', value' = int (length ds)\<rparr>,
                \<lparr>label = ''No Disponibles'', value' = total - int (length ds)\<rparr>]\<rparr>))
      else if tipoReporte s = ''conductores'' then
        Inr (s\<lparr>estadisticasResumen :=
               [\<lparr>label = ''Rutas Completadas'', value' = total\<rparr>]\<rparr>)
      else Inr s)"

subsection \<open>generarReporte: the response\<close>

text \<open>
  The error of a failed request, as far as \<^verbatim>\<open>catchError\<close> reads it: \<open>detail\<close> is
  \<^verbatim>\<open>err.error?.detail\<close> and \<open>message\<close> is \<^verbatim>\<open>err.message\<close>, each a string, empty
  when the error has none (an empty string and a missing one are both falsy).
\<close>

record http_error =
  status :: int
  detail :: string
  message :: string

definition mensaje_sin_conexion :: string where
  "mensaje_sin_conexion =
     [CHR 0xF0, CHR 0x9F, CHR 0x94, CHR 0xB4]
     @ '' No se puede conectar al servidor. Verifica que est'' @ [CHR 0xC3, CHR 0xA9]
     @ '' corriendo en http://localhost:8000''"

definition mensaje_no_encontrado :: string where
  "mensaje_no_encontrado =
     ''Endpoint no encontrado. Verifica la configuraci'' @ [CHR 0xC3, CHR 0xB3]
     @ ''n del backend.''"

definition generarReporte_catchError :: "http_error \<Rightarrow> componente \<Rightarrow> componente" where
  "generarReporte_catchError err s =
     (let mensajeError =
        (if status err = 0 then mensaje_sin_conexion
         else if status err = 404 then mensaje_no_encontrado
         else if status err = 500 then
           ''Error interno del servidor: ''
             @ (if detail err \<noteq> [] then detail err else ''Error desconocido'')
         else if detail err \<noteq> [] then detail err
         else if message err \<noteq> [] then message err
         else ''Error al generar el reporte.'')
      in s\<lparr>error := Some mensajeError, loading := False\<rparr>)"

text \<open>
  Lines 110 to 140: the three filters the backend does not apply. \<^verbatim>\<open>estadoMap\<close> is
  an object literal, so a read of it falls back on \<^verbatim>\<open>Object.prototype\<close> like any
  other.
\<close>

definition estadoMap :: objeto where
  "estadoMap =
     [(''en_proceso'', JArr [JStr ''en_proceso'', JStr ''asignado'', JStr ''in_transit'']),
      (''pendiente'', JArr [JStr ''pendiente'', JStr ''pending'']),
      (''completado'', JArr [JStr ''completado'', JStr ''entregado'', JStr ''delivered'']),
      (''cancelado'', JArr [JStr ''cancelado'', JStr ''cancelled''])]"

definition estadosBuscar :: "string \<Rightarrow> jsval" where
  "estadosBuscar filtro =
     (case get_prop estadoMap (toLowerCase filtro) of
        JUndefined \<Rightarrow> JArr [JStr (toLowerCase filtro)]
      | v \<Rightarrow> v)"

definition estado_en :: "jsval \<Rightarrow> objeto \<Rightarrow> excepcion + bool" where
  "estado_en buscar item =
     (case toLowerCase_opt (get_prop item ''status'') of
        Inl e \<Rightarrow> Inl e
      | Inr v \<Rightarrow> includes_val buscar v)"

definition generarReporte_filtrar :: "componente \<Rightarrow> objeto list \<Rightarrow> excepcion + objeto list" where
  "generarReporte_filtrar s datos =
     (let f = filtros s in
      case (if tipoReporte s = ''clientes'' \<and> estado f \<noteq> []
            then filter_js (campo_es ''status'' (toLowerCase (estado f))) datos
            else Inr datos) of
        Inl e \<Rightarrow> Inl e
      | Inr datos1 \<Rightarrow>
      (case (if tipoReporte s = ''pedidos'' \<and> estadoPedido f \<noteq> []
             then filter_js (estado_en (estadosBuscar (estadoPedido f))) datos1
             else Inr datos1) of
        Inl e \<Rightarrow> Inl e
      | Inr datos2 \<Rightarrow>
          if tipoReporte s = ''vehiculos'' \<and> tipoVehiculo f \<noteq> []
          then filter_js (campo_es ''vehicle_type'' (toLowerCase (tipoVehiculo f))) datos2
          else Inr datos2))"

text \<open>
  The callback of \<^verbatim>\<open>subscribe\<close>, on the body of the response (\<open>None\<close> is a
  \<^verbatim>\<open>null\<close> body, which \<^verbatim>\<open>data || []\<close> provides for). It returns the fields and
  the timers it set, or the exception it raised with the fields as they were then.
\<close>

definition generarReporte_subscribe ::
  "objeto list option \<Rightarrow> componente \<Rightarrow> excepcion \<times> componente + componente \<times> efecto list" where
  "generarReporte_subscribe data s0 =
     (let s1 = s0\<lparr>loading := False\<rparr> in
      case generarReporte_filtrar s1 (case data of None \<Rightarrow> [] | Some d \<Rightarrow> d) of
        Inl e \<Rightarrow> Inl (e, s1)
      | Inr datosFiltrados \<Rightarrow>
          (let s2 = s1\<lparr>datosReporte := datosFiltrados\<rparr> in
           case calcularEstadisticas s2 of
             Inl e \<Rightarrow> Inl (e, s2)
           | Inr s3 \<Rightarrow>
               if datosReporte s3 = [] then
                 (case data of
                    None \<Rightarrow> Inl (TypeError, s3)
                  | Some d \<Rightarrow>
                      if d \<noteq> [] then
                        Inr (s3\<lparr>error := Some ''No hay resultados con los filtros aplicados''\<rparr>,
                             [SetTimeout BorrarError 3000])
                      else Inr (s3, []))
               else Inr (s3, [])))"

text \<open>
  A failed request goes through \<^verbatim>\<open>catchError\<close>, which hands the empty array to the
  same callback.
\<close>

datatype respuesta = Falla http_error | Cuerpo "objeto list option"

fun generarReporte_respuesta ::
  "respuesta \<Rightarrow> componente \<Rightarrow> excepcion \<times> componente + componente \<times> efecto list" where
  "generarReporte_respuesta (Falla err) s =
     generarReporte_subscribe (Some []) (generarReporte_catchError err s)"
| "generarReporte_respuesta (Cuerpo data) s = generarReporte_subscribe data s"

definition limpiarFiltros :: "componente \<Rightarrow> componente" where
  "limpiarFiltros s =
     s\<lparr>filtros :=
         \<lparr>fechaInicio = [], fechaFin = [], estado = [], estadoPedido = [],
          tipoVehiculo = [], clienteId = [], conductorId = []\<rparr>,
       datosReporte := [],
       estadisticasResumen := []\<rparr>"

subsection \<open>The host\<close>

text \<open>
  \<^verbatim>\<open>Date\<close>, \<^verbatim>\<open>Intl\<close>, \<^verbatim>\<open>JSON\<close> and the conversion of a number or an object to
  text belong to the browser, not to the repository: the component takes them as a
  parameter. \<open>newDate v\<close> is \<^verbatim>\<open>new Date(v)\<close>: the constructor raises (it does on
  an object that cannot be converted to a primitive), or gives the invalid date, or a
  time value in milliseconds. \<open>fecha_esCO t\<close> is \<^verbatim>\<open>toLocaleString('es-CO', ...)\<close>
  with the options of line 265 on the valid date \<open>t\<close>; on the invalid date every
  host gives the text \<^verbatim>\<open>Invalid Date\<close> (ECMA-402, \<^verbatim>\<open>Date.prototype.toLocaleString\<close>),
  and no exception. \<open>moneda_COP\<close> is the \<^verbatim>\<open>Intl.NumberFormat\<close> of line 303,
  \<open>JSON_stringify\<close> is \<^verbatim>\<open>JSON.stringify\<close> on a value whose \<^verbatim>\<open>typeof\<close> is
  \<^verbatim>\<open>object\<close>, \<open>Number_toString\<close> is the text of a number, \<open>ToPrimitive_string\<close>
  the text of an array, an object or a host value (\<open>None\<close> when the conversion raises)
  and \<open>hoy\<close> is \<^verbatim>\<open>new Date().toISOString().split('T')[0]\<close>.
\<close>

datatype fecha = DateThrows | InvalidDate | ValidDate int

record plataforma =
  newDate :: "jsval \<Rightarrow> fecha"
  fecha_esCO :: "int \<Rightarrow> string"
  moneda_COP :: "real \<Rightarrow> string"
  JSON_stringify :: "jsval \<Rightarrow> string"
  Number_toString :: "real \<Rightarrow> string"
  ToPrimitive_string :: "jsval \<Rightarrow> string option"
  hoy :: string

text \<open>\<^verbatim>\<open>String(v)\<close>.\<close>

fun String_js :: "plataforma \<Rightarrow> jsval \<Rightarrow> excepcion + string" where
  "String_js P JUndefined = Inr ''undefined''"
| "String_js P JNull = Inr ''null''"
| "String_js P (JBool b) = Inr (if b then ''true'' else ''false'')"
| "String_js P (JNum n) = Inr (Number_toString P n)"
| "String_js P (JStr s) = Inr s"
| "String_js P v =
     (case ToPrimitive_string P v of None \<Rightarrow> Inl TypeError | Some s \<Rightarrow> Inr s)"

subsection \<open>The table: columns and cells\<close>

definition getColumnKeys :: "componente \<Rightarrow> string list" where
  "getColumnKeys s = (case datosReporte s of [] \<Rightarrow> [] | r # rs \<Rightarrow> map fst r)"

definition translations' :: objeto where
  "translations' =
     [(''id'', JStr ''ID''),
      (''name'', JStr ''Nombre''),
      (''first_name'', JStr ''Nombre''),
      (''last_name'', JStr ''Apellido''),
      (''email'', JStr ''Email''),
      (''phone'', JStr (''Tel'' @ [CHR 0xC3, CHR 0xA9] @ ''fono'')),
      (''company'', JStr ''Empresa''),
      (''client_type'', JStr ''Tipo Cliente''),
      (''status'', JStr ''Estado''),
      (''order_number'', JStr (''N'' @ [CHR 0xC2, CHR 0xB0] @ '' Orden'')),
      (''client_id'', JStr ''Cliente''),
      (''driver_id'', JStr ''Conductor''),
      (''vehicle_id'', JStr (''Veh'' @ [CHR 0xC3, CHR 0xAD] @ ''culo'')),
      (''origin_address'', JStr ''Origen''),
      (''destination_address'', JStr ''Destino''),
      (''origin_city'', JStr ''Ciudad Origen''),
      (''destination_city'', JStr ''Ciudad Destino''),
      (''priority'', JStr ''Prioridad''),
      (''value'', JStr ''Valor''),
      (''tracking_code'', JStr (''C'' @ [CHR 0xC3, CHR 0xB3] @ ''digo Rastreo'')),
      (''license_plate'', JStr ''Placa''),
      (''brand'', JStr ''Marca''),
      (''model'', JStr ''Modelo''),
      (''year'', JStr (''A'' @ [CHR 0xC3, CHR 0xB1] @ ''o'')),
      (''vehicle_type'', JStr (''Tipo Veh'' @ [CHR 0xC3, CHR 0xAD] @ ''culo'')),
      (''document_number'', JStr ''Documento''),
      (''license_type'', JStr ''Tipo Licencia''),
      (''created_at'', JStr (''Fecha Creaci'' @ [CHR 0xC3, CHR 0xB3] @ ''n'')),
      (''updated_at'',
         JStr ([CHR 0xC3, CHR 0x9A] @ ''ltima Actualizaci'' @ [CHR 0xC3, CHR 0xB3] @ ''n''))]"

text \<open>
  \<^verbatim>\<open>key.replace(/_/g, ' ').replace(/\b\w/g, l => l.toUpperCase())\<close>: a word character
  is a letter of A to Z, a digit or the underscore, and \<^verbatim>\<open>\b\w\<close> is one that no
  word character precedes.
\<close>

definition es_palabra :: "char \<Rightarrow> bool" where
  "es_palabra c =
     (c \<in> set ''ABCDEFGHIJKLMNOPQRSTUVWXYZabcdefghijklmnopqrstuvwxyz0123456789_'')"

fun capitalizar :: "bool \<Rightarrow> string \<Rightarrow> string" where
  "capitalizar previo [] = []"
| "capitalizar previo (c # cs) =
     (if es_palabra c \<and> \<not> previo then upper_char c else c) # capitalizar (es_palabra c) cs"

definition humanizar :: "string \<Rightarrow> string" where
  "humanizar k = capitalizar False (map (\<lambda>c. if c = CHR ''_'' then CHR '' '' else c) k)"

text \<open>\<^verbatim>\<open>translations[key] || ...\<close>: every entry of the table is truthy, and so is
  what a read finds on the prototype.\<close>

definition formatColumnName :: "string \<Rightarrow> jsval" where
  "formatColumnName k =
     (case get_prop translations' k of
        JUndefined \<Rightarrow> JStr (humanizar k)
      | w \<Rightarrow> w)"

definition statusMap :: objeto where
  "statusMap =
     [(''pendiente'', JStr ''Pendiente''),
      (''asignado'', JStr ''Asignado''),
      (''entregado'', JStr ''Entregado''),
      (''cancelado'', JStr ''Cancelado''),
      (''activo'', JStr ''Activo''),
      (''inactivo'', JStr ''Inactivo''),
      (''disponible'', JStr ''Disponible'')]"

definition priorityMap :: objeto where
  "priorityMap =
     [(''alta'', JStr ''Alta''),
      (''media'', JStr ''Media''),
      (''baja'', JStr ''Baja'')]"

text \<open>
  \<^verbatim>\<open>tabla[value?.toLowerCase()] || value\<close> on a value that is neither \<^verbatim>\<open>null\<close>
  nor \<^verbatim>\<open>undefined\<close>: the call of \<^verbatim>\<open>toLowerCase\<close> returns a string or raises.
\<close>

definition etiqueta :: "objeto \<Rightarrow> jsval \<Rightarrow> excepcion + jsval" where
  "etiqueta tabla v =
     (case toLowerCase_opt v of
        Inl e \<Rightarrow> Inl e
      | Inr l \<Rightarrow>
          (case get_prop tabla (case l of JStr k \<Rightarrow> k | _ \<Rightarrow> ''undefined'') of
             JUndefined \<Rightarrow> Inr v
           | w \<Rightarrow> Inr w))"

definition getColumnValue :: "plataforma \<Rightarrow> objeto \<Rightarrow> string \<Rightarrow> excepcion + jsval" where
  "getColumnValue P item k =
     (let v = get_prop item k in
      if v = JNull \<or> v = JUndefined then Inr (JStr ''-'')
      else if includes_str k ''date'' \<or> includes_str k ''_at'' then
        (case newDate P v of
           DateThrows \<Rightarrow> Inr v
         | InvalidDate \<Rightarrow> Inr (JStr ''Invalid Date'')
         | ValidDate t \<Rightarrow> Inr (JStr (fecha_esCO P t)))
      else if k = ''status'' then etiqueta statusMap v
      else if k = ''priority'' then etiqueta priorityMap v
      else if k = ''value'' \<and> typeof v = ''number'' then
        (case v of JNum n \<Rightarrow> Inr (JStr (moneda_COP P n)) | _ \<Rightarrow> Inr v)
      else if typeof v = ''object'' then Inr (JStr (JSON_stringify P v))
      else Inr v)"

subsection \<open>exportarExcel\<close>

text \<open>\<^verbatim>\<open>xs.join(sep)\<close> on strings, and a list of computations that stops at the first
  raise.\<close>

fun join :: "string \<Rightarrow> string list \<Rightarrow> string" where
  "join sep [] = []"
| "join sep [x] = x"
| "join sep (x # y # ys) = x @ sep @ join sep (y # ys)"

fun todos :: "(excepcion + 'a) list \<Rightarrow> excepcion + 'a list" where
  "todos [] = Inr []"
| "todos (x # xs) =
     (case x of
        Inl e \<Rightarrow> Inl e
      | Inr v \<Rightarrow> (case todos xs of Inl e \<Rightarrow> Inl e | Inr vs \<Rightarrow> Inr (v # vs)))"

text \<open>One cell of the CSV (lines 326 to 330).\<close>

definition celda :: "plataforma \<Rightarrow> objeto \<Rightarrow> string \<Rightarrow> excepcion + string" where
  "celda P row h =
     (case getColumnValue P row h of
        Inl e \<Rightarrow> Inl e
      | Inr val \<Rightarrow>
          (case String_js P val of
             Inl e \<Rightarrow> Inl e
           | Inr strVal \<Rightarrow>
               Inr (if includes_str strVal '','' then ''\"'' @ strVal @ ''\"'' else strVal)))"

text \<open>\<^verbatim>\<open>csvContent\<close> (lines 322 to 332). The header is joined from the labels, which
  \<^verbatim>\<open>join\<close> turns into text.\<close>

definition csvContent :: "plataforma \<Rightarrow> componente \<Rightarrow> excepcion + string" where
  "csvContent P s =
     (let headers = getColumnKeys s in
      case todos (map (\<lambda>h. String_js P (formatColumnName h)) headers) of
        Inl e \<Rightarrow> Inl e
      | Inr etiquetas \<Rightarrow>
          (case todos (map (\<lambda>row.
                   case todos (map (celda P row) headers) of
                     Inl e \<Rightarrow> Inl e
                   | Inr celdas \<Rightarrow> Inr (join '','' celdas)) (datosReporte s)) of
             Inl e \<Rightarrow> Inl e
           | Inr filas \<Rightarrow> Inr (join [CHR 0x0A] (join '','' etiquetas # filas))))"

text \<open>
  The guard of line 315 comes first. Whatever is raised between lines 322 and 343 is
  caught at line 344. The blob starts with the byte order mark \<^verbatim>\<open>U+FEFF\<close>.
\<close>

definition exportarExcel :: "plataforma \<Rightarrow> componente \<Rightarrow> componente \<times> efecto list" where
  "exportarExcel P s =
     (if datosReporte s = [] then
        (s\<lparr>error := Some ''No hay datos para exportar''\<rparr>, [SetTimeout BorrarError 3000])
      else
        (case csvContent P s of
           Inl e \<Rightarrow>
             (s\<lparr>error := Some ''Error al exportar CSV''\<rparr>, [SetTimeout BorrarError 3000])
         | Inr csv \<Rightarrow>
             (s, [Descarga (tituloReporte s @ ''_'' @ hoy P @ ''.csv'')
                    ([CHR 0xEF, CHR 0xBB, CHR 0xBF] @ csv)])))"

subsection \<open>A host and a page for the worked examples\<close>

text \<open>
  An instance of the host to evaluate the examples on. It parses one timestamp text and
  takes a number in the range of time values, a boolean and \<^verbatim>\<open>null\<close> as a time
  value, as every host does; of an object it only says what every host says (an object
  whose own \<^verbatim>\<open>toString\<close> is no function cannot be converted, any other plain
  object converts to a text that is no date); it takes no array for a date. The
  services the examples do not reach return a fixed text.
\<close>

definition plataforma_ejemplo :: plataforma where
  "plataforma_ejemplo =
     \<lparr>newDate = (\<lambda>v. case v of
          JStr s \<Rightarrow> if s = ''2024-01-15T10:30:00Z'' then ValidDate 1705314600000
                    else InvalidDate
        | JNum n \<Rightarrow> if \<bar>n\<bar> \<le> 8640000000000000
                    then ValidDate (if 0 \<le> n then \<lfloor>n\<rfloor> else \<lceil>n\<rceil>)
                    else InvalidDate
        | JBool b \<Rightarrow> ValidDate (if b then 1 else 0)
        | JNull \<Rightarrow> ValidDate 0
        | JObj ps \<Rightarrow> if map_of ps ''toString'' = None then InvalidDate else DateThrows
        | _ \<Rightarrow> InvalidDate),
      fecha_esCO = (\<lambda>t. if t = 1705314600000 then ''15/01/2024, 05:30 a. m.''
                         else ''31/12/1969, 07:00 p. m.''),
      moneda_COP = (\<lambda>n. ''$ 0,00''),
      JSON_stringify = (\<lambda>v. ''{}''),
      Number_toString = (\<lambda>n. ''0''),
      ToPrimitive_string = (\<lambda>v. Some ''[object Object]''),
      hoy = ''2024-01-15''\<rparr>"

definition sin_filtros :: filtros_reporte where
  "sin_filtros =
     \<lparr>fechaInicio = [], fechaFin = [], estado = [], estadoPedido = [],
      tipoVehiculo = [], clienteId = [], conductorId = []\<rparr>"

text \<open>The component as its field initialisers leave it (lines 16 to 32).\<close>

definition inicial :: componente where
  "inicial =
     \<lparr>tipoReporte = [], datosReporte = [], tituloReporte = [], loading = False,
      error = None, filtros = sin_filtros, estadisticasResumen = []\<rparr>"

subsection \<open>Predicates of the statements\<close>

text \<open>
  The values of a field on which \<^verbatim>\<open>?.toLowerCase()\<close> does not raise: a string,
  \<^verbatim>\<open>null\<close>, or no value at all.
\<close>

definition campo_texto :: "string \<Rightarrow> objeto \<Rightarrow> bool" where
  "campo_texto campo r =
     (case get_prop r campo of
        JStr t \<Rightarrow> True
      | JNull \<Rightarrow> True
      | JUndefined \<Rightarrow> True
      | _ \<Rightarrow> False)"

text \<open>The record's status is a string that equals \<open>nombre\<close> when case is ignored
  (\<open>nombre\<close> is given in lower case).\<close>

definition es_estado :: "string \<Rightarrow> objeto \<Rightarrow> bool" where
  "es_estado nombre r =
     (case get_prop r ''status'' of
        JStr t \<Rightarrow> toLowerCase t = nombre
      | _ \<Rightarrow> False)"

section \<open>Properties\<close>

subsection \<open>Selecting a category\<close>

text \<open>
  C7. Whatever the result set, the statistics and the error message were, and whatever
  category is selected, \<^verbatim>\<open>seleccionarReporte\<close> leaves the result set empty, the
  statistics empty and the error message \<^verbatim>\<open>null\<close>.
\<close>

theorem seleccionarReporte_resets:
  "datosReporte (seleccionarReporte tipo s) = []
   \<and> estadisticasResumen (seleccionarReporte tipo s) = []
   \<and> error (seleccionarReporte tipo s) = None"
  by (simp add: seleccionarReporte_def)

theorem seleccionarReporte_resets_witness:
  "datosReporte (seleccionarReporte ''clientes''
      (inicial\<lparr>tipoReporte := ''pedidos'',
         datosReporte := [[(''id'', JNum 7)]],
         error := Some ''Error al generar el reporte.'',
         estadisticasResumen := [\<lparr>label = ''Total'', value' = 1\<rparr>]\<rparr>)) = []
   \<and> estadisticasResumen (seleccionarReporte ''clientes''
      (inicial\<lparr>tipoReporte := ''pedidos'',
         datosReporte := [[(''id'', JNum 7)]],
         error := Some ''Error al generar el reporte.'',
         estadisticasResumen := [\<lparr>label = ''Total'', value' = 1\<rparr>]\<rparr>)) = []
   \<and> error (seleccionarReporte ''clientes''
      (inicial\<lparr>tipoReporte := ''pedidos'',
         datosReporte := [[(''id'', JNum 7)]],
         error := Some ''Error al generar el reporte.'',
         estadisticasResumen := [\<lparr>label = ''Total'', value' = 1\<rparr>]\<rparr>)) = None"
  by (rule seleccionarReporte_resets)

text \<open>
  C10. \<^verbatim>\<open>seleccionarReporte\<close> does not touch the filters: each of the seven fields
  holds after the switch what it held before, and so does the loading flag.
\<close>

theorem seleccionarReporte_keeps_filtros:
  "filtros (seleccionarReporte tipo s) = filtros s
   \<and> fechaInicio (filtros (seleccionarReporte tipo s)) = fechaInicio (filtros s)
   \<and> fechaFin (filtros (seleccionarReporte tipo s)) = fechaFin (filtros s)
   \<and> estado (filtros (seleccionarReporte tipo s)) = estado (filtros s)
   \<and> estadoPedido (filtros (seleccionarReporte tipo s)) = estadoPedido (filtros s)
   \<and> tipoVehiculo (filtros (seleccionarReporte tipo s)) = tipoVehiculo (filtros s)
   \<and> clienteId (filtros (seleccionarReporte tipo s)) = clienteId (filtros s)
   \<and> conductorId (filtros (seleccionarReporte tipo s)) = conductorId (filtros s)
   \<and> loading (seleccionarReporte tipo s) = loading s"
  by (simp add: seleccionarReporte_def)

theorem seleccionarReporte_keeps_filtros_witness:
  "filtros (seleccionarReporte ''vehiculos''
      (inicial\<lparr>loading := True,
         filtros := sin_filtros\<lparr>estado := ''activo'', clienteId := ''12''\<rparr>\<rparr>))
     = sin_filtros\<lparr>estado := ''activo'', clienteId := ''12''\<rparr>
   \<and> loading (seleccionarReporte ''vehiculos''
      (inicial\<lparr>loading := True,
         filtros := sin_filtros\<lparr>estado := ''activo'', clienteId := ''12''\<rparr>\<rparr>))"
  using seleccionarReporte_keeps_filtros
    [of "''vehiculos''"
        "inicial\<lparr>loading := True,
           filtros := sin_filtros\<lparr>estado := ''activo'', clienteId := ''12''\<rparr>\<rparr>"]
  by simp

subsection \<open>The request of a report\<close>

text \<open>
  C1. With the category \<^verbatim>\<open>pedidos\<close> (orders), the request that
  \<^verbatim>\<open>generarReporte\<close> sends is chosen in this order: when the start date and the end
  date are both present, \<^verbatim>\<open>/reports/orders-by-date\<close> with the parameters
  \<^verbatim>\<open>start_date\<close> and \<^verbatim>\<open>end_date\<close> set to them; otherwise, when a client identifier
  is present, \<^verbatim>\<open>/reports/orders-by-client/\<close> followed by that identifier, with no
  parameter; otherwise \<^verbatim>\<open>/orders\<close>, with no parameter.
\<close>

theorem generarReporte_pedidos:
  assumes "tipoReporte s = ''pedidos''"
  shows "(fechaInicio (filtros s) \<noteq> [] \<and> fechaFin (filtros s) \<noteq> [] \<longrightarrow>
            snd (generarReporte s) =
              [HttpGet (apiUrl @ ''/reports/orders-by-date'')
                 [(''start_date'', fechaInicio (filtros s)),
                  (''end_date'', fechaFin (filtros s))]])
       \<and> (\<not> (fechaInicio (filtros s) \<noteq> [] \<and> fechaFin (filtros s) \<noteq> [])
            \<and> clienteId (filtros s) \<noteq> [] \<longrightarrow>
            snd (generarReporte s) =
              [HttpGet (apiUrl @ ''/reports/orders-by-client/'' @ clienteId (filtros s)) []])
       \<and> (\<not> (fechaInicio (filtros s) \<noteq> [] \<and> fechaFin (filtros s) \<noteq> [])
            \<and> clienteId (filtros s) = [] \<longrightarrow>
            snd (generarReporte s) = [HttpGet (apiUrl @ ''/orders'') []])"
  using assms by (simp add: generarReporte_def generarReporte_consulta_def Let_def)

theorem generarReporte_pedidos_witness:
  "snd (generarReporte (inicial\<lparr>tipoReporte := ''pedidos'',
      filtros := sin_filtros\<lparr>fechaInicio := ''2024-01-01'', fechaFin := ''2024-01-31'',
                   clienteId := ''5''\<rparr>\<rparr>))
     = [HttpGet ''http://localhost:8000/api/v1/reports/orders-by-date''
          [(''start_date'', ''2024-01-01''), (''end_date'', ''2024-01-31'')]]
   \<and> snd (generarReporte (inicial\<lparr>tipoReporte := ''pedidos'',
      filtros := sin_filtros\<lparr>fechaInicio := ''2024-01-01'', clienteId := ''5''\<rparr>\<rparr>))
     = [HttpGet ''http://localhost:8000/api/v1/reports/orders-by-client/5'' []]
   \<and> snd (generarReporte (inicial\<lparr>tipoReporte := ''pedidos'',
      filtros := sin_filtros\<lparr>fechaFin := ''2024-01-31''\<rparr>\<rparr>))
     = [HttpGet ''http://localhost:8000/api/v1/orders'' []]"
proof -
  have a: "tipoReporte (inicial\<lparr>tipoReporte := ''pedidos'',
      filtros := sin_filtros\<lparr>fechaInicio := ''2024-01-01'', fechaFin := ''2024-01-31'',
                   clienteId := ''5''\<rparr>\<rparr>) = ''pedidos''"
    by simp
  have b: "tipoReporte (inicial\<lparr>tipoReporte := ''pedidos'',
      filtros := sin_filtros\<lparr>fechaInicio := ''2024-01-01'', clienteId := ''5''\<rparr>\<rparr>)
        = ''pedidos''"
    by simp
  have c: "tipoReporte (inicial\<lparr>tipoReporte := ''pedidos'',
      filtros := sin_filtros\<lparr>fechaFin := ''2024-01-31''\<rparr>\<rparr>) = ''pedidos''"
    by simp
  show ?thesis
    using generarReporte_pedidos [OF a] generarReporte_pedidos [OF b]
      generarReporte_pedidos [OF c]
    by (simp add: sin_filtros_def apiUrl_def)
qed

text \<open>
  C2, as the code has it. With a category that is empty or none of \<^verbatim>\<open>pedidos\<close>,
  \<^verbatim>\<open>clientes\<close>, \<^verbatim>\<open>vehiculos\<close> and \<^verbatim>\<open>conductores\<close>, \<^verbatim>\<open>generarReporte\<close> has no
  guard: no endpoint is selected (the URL is the empty string and there is no
  parameter), but the error message is cleared, the loading flag is set and the request
  is sent to that empty URL. The result set and the statistics are as they were when the
  call returns.
\<close>

theorem generarReporte_unknown_category:
  assumes "tipoReporte s \<noteq> ''pedidos''" and "tipoReporte s \<noteq> ''clientes''"
    and "tipoReporte s \<noteq> ''vehiculos''" and "tipoReporte s \<noteq> ''conductores''"
  shows "generarReporte s = (s\<lparr>error := None, loading := True\<rparr>, [HttpGet [] []])"
  using assms by (simp add: generarReporte_def generarReporte_consulta_def)

theorem generarReporte_unknown_category_witness:
  "generarReporte (inicial\<lparr>tipoReporte := ''rutas'', error := Some ''Error''\<rparr>)
     = (inicial\<lparr>tipoReporte := ''rutas'', error := None, loading := True\<rparr>,
        [HttpGet [] []])"
  using generarReporte_unknown_category
    [of "inicial\<lparr>tipoReporte := ''rutas'', error := Some ''Error''\<rparr>"]
  by simp

text \<open>
  The claim C2 as it was stated (no request, no change of the fields) fails on the
  component as it is created, whose category is empty: the loading flag goes from false
  to true and a request is sent.
\<close>

theorem generarReporte_unknown_category_counterexample:
  "tipoReporte inicial = []
   \<and> loading inicial = False
   \<and> loading (fst (generarReporte inicial)) = True
   \<and> fst (generarReporte inicial) \<noteq> inicial
   \<and> snd (generarReporte inicial) = [HttpGet [] []]"
proof -
  have g: "generarReporte inicial = (inicial\<lparr>loading := True\<rparr>, [HttpGet [] []])"
    by (simp add: generarReporte_def generarReporte_consulta_def inicial_def)
  have l: "loading inicial = False"
    by (simp add: inicial_def)
  have "inicial\<lparr>loading := True\<rparr> \<noteq> inicial"
  proof
    assume "inicial\<lparr>loading := True\<rparr> = inicial"
    then have "loading (inicial\<lparr>loading := True\<rparr>) = loading inicial" by simp
    with l show False by simp
  qed
  with g l show ?thesis by (simp add: inicial_def)
qed

subsection \<open>Exporting an empty result set\<close>

text \<open>
  C6, as the code has it. With an empty result set \<^verbatim>\<open>exportarExcel\<close> produces no
  file, and leaves the category, the result set, the title, the loading flag, the filters
  and the statistics as they are; it reports through the component's own error message,
  which it sets to \<^verbatim>\<open>No hay datos para exportar\<close>, and it schedules the clearing of
  that message 3000 ms later.
\<close>

theorem exportarExcel_empty:
  assumes "datosReporte s = []"
  shows "exportarExcel P s =
           (s\<lparr>error := Some ''No hay datos para exportar''\<rparr>, [SetTimeout BorrarError 3000])"
  using assms by (simp add: exportarExcel_def)

theorem exportarExcel_empty_witness:
  "exportarExcel plataforma_ejemplo (inicial\<lparr>tipoReporte := ''clientes''\<rparr>) =
     (inicial\<lparr>tipoReporte := ''clientes'', error := Some ''No hay datos para exportar''\<rparr>,
      [SetTimeout BorrarError 3000])"
proof -
  have e: "datosReporte (inicial\<lparr>tipoReporte := ''clientes''\<rparr>) = []"
    by (simp add: inicial_def)
  show ?thesis
    using exportarExcel_empty [OF e, of plataforma_ejemplo] by simp
qed

text \<open>
  The claim C6 as it was stated (the fields of the component are left unchanged) fails on
  the component as it is created: its error message was \<^verbatim>\<open>null\<close> and is not after the
  call.
\<close>

theorem exportarExcel_empty_counterexample:
  "datosReporte inicial = []
   \<and> error inicial = None
   \<and> error (fst (exportarExcel plataforma_ejemplo inicial)) = Some ''No hay datos para exportar''
   \<and> fst (exportarExcel plataforma_ejemplo inicial) \<noteq> inicial"
proof -
  have e: "fst (exportarExcel plataforma_ejemplo inicial)
             = inicial\<lparr>error := Some ''No hay datos para exportar''\<rparr>"
    by (simp add: exportarExcel_def inicial_def)
  have n: "error inicial = None"
    by (simp add: inicial_def)
  have "inicial\<lparr>error := Some ''No hay datos para exportar''\<rparr> \<noteq> inicial"
  proof
    assume "inicial\<lparr>error := Some ''No hay datos para exportar''\<rparr> = inicial"
    then have "error (inicial\<lparr>error := Some ''No hay datos para exportar''\<rparr>) = error inicial"
      by simp
    with n show False by simp
  qed
  with e n show ?thesis by (simp add: inicial_def)
qed

subsection \<open>Filtering with a callback that may raise\<close>

lemma filter_js_total:
  "list_all (\<lambda>x. p x = Inr (q x)) xs \<Longrightarrow> filter_js p xs = Inr (filter q xs)"
  by (induction xs) auto

lemma filter_js_Inr:
  "filter_js p xs = Inr ys \<Longrightarrow> ys = filter (\<lambda>x. p x = Inr True) xs"
  by (induction xs arbitrary: ys) (auto split: sum.splits if_splits)

lemma campo_es_texto:
  "campo_texto campo r \<Longrightarrow>
     campo_es campo nombre r =
       Inr (case get_prop r campo of JStr t \<Rightarrow> toLowerCase t = nombre | _ \<Rightarrow> False)"
  by (auto simp: campo_texto_def campo_es_def split: jsval.splits)

lemma status_en_texto:
  "campo_texto ''status'' r \<Longrightarrow>
     status_en nombres r =
       Inr (case get_prop r ''status'' of JStr t \<Rightarrow> toLowerCase t \<in> set nombres | _ \<Rightarrow> False)"
  by (auto simp: campo_texto_def status_en_def split: jsval.splits)

lemma status_en_True:
  "status_en nombres r = Inr True \<Longrightarrow>
     \<exists>t. get_prop r ''status'' = JStr t \<and> toLowerCase t \<in> set nombres"
  by (cases "get_prop r ''status''") (auto simp: status_en_def)

lemma three_filters:
  "list_all (\<lambda>x. \<not> (P x \<and> Q x) \<and> \<not> (P x \<and> R x) \<and> \<not> (Q x \<and> R x)) xs \<Longrightarrow>
     length (filter P xs) + length (filter Q xs) + length (filter R xs) \<le> length xs"
  by (induction xs) auto

subsection \<open>The statistics of the clients\<close>

text \<open>
  C3, as the code has it. Under the category \<^verbatim>\<open>clientes\<close> (clients), for a result
  set in which the status of every record is a string, \<^verbatim>\<open>null\<close> or missing, the
  statistics are exactly, in this order: \<^verbatim>\<open>Total\<close>, the number of records;
  \<^verbatim>\<open>Activos\<close>, the number of records whose status equals \<^verbatim>\<open>activo\<close> when case
  is ignored; \<^verbatim>\<open>Inactivos\<close>, the total minus the number of active ones.
\<close>

theorem clientes_estadisticas:
  assumes "tipoReporte s = ''clientes''"
    and "list_all (campo_texto ''status'') (datosReporte s)"
  shows "calcularEstadisticas s =
           Inr (s\<lparr>estadisticasResumen :=
             [\<lparr>label = ''Total'', value' = int (length (datosReporte s))\<rparr>,
              \<lparr>label = ''Activos'',
               value' = int (length (filter (es_estado ''activo'') (datosReporte s)))\<rparr>,
              \<lparr>label = ''Inactivos'',
               value' = int (length (datosReporte s))
                          - int (length (filter (es_estado ''activo'') (datosReporte s)))\<rparr>]\<rparr>)"
proof -
  have "list_all (\<lambda>r. campo_es ''status'' ''activo'' r = Inr (es_estado ''activo'' r))
          (datosReporte s)"
    using assms(2) by (simp add: list_all_iff campo_es_texto es_estado_def)
  then have "filter_js (campo_es ''status'' ''activo'') (datosReporte s)
               = Inr (filter (es_estado ''activo'') (datosReporte s))"
    by (rule filter_js_total)
  with assms(1) show ?thesis
    by (simp add: calcularEstadisticas_def Let_def)
qed

theorem clientes_estadisticas_witness:
  "calcularEstadisticas
     (inicial\<lparr>tipoReporte := ''clientes'',
        datosReporte := [[(''status'', JStr ''Activo'')], [(''status'', JStr ''activo'')],
                         [(''status'', JStr ''Inactivo'')], [(''id'', JNum 4)]]\<rparr>)
   = Inr (inicial\<lparr>tipoReporte := ''clientes'',
        datosReporte := [[(''status'', JStr ''Activo'')], [(''status'', JStr ''activo'')],
                         [(''status'', JStr ''Inactivo'')], [(''id'', JNum 4)]],
        estadisticasResumen :=
          [\<lparr>label = ''Total'', value' = 4\<rparr>,
           \<lparr>label = ''Activos'', value' = 2\<rparr>,
           \<lparr>label = ''Inactivos'', value' = 2\<rparr>]\<rparr>)"
proof -
  let ?s = "inicial\<lparr>tipoReporte := ''clientes'',
        datosReporte := [[(''status'', JStr ''Activo'')], [(''status'', JStr ''activo'')],
                         [(''status'', JStr ''Inactivo'')], [(''id'', JNum 4)]]\<rparr>"
  have a: "tipoReporte ?s = ''clientes''" by simp
  have b: "list_all (campo_texto ''status'') (datosReporte ?s)"
    by (simp add: campo_texto_def get_prop_def object_prototype_keys_def)
  show ?thesis
    using clientes_estadisticas [OF a b]
    by (simp add: es_estado_def get_prop_def object_prototype_keys_def toLowerCase_def
        lower_char_def)
qed

text \<open>
  The claim C3 as it was stated compares the status with \<^verbatim>\<open>active\<close>: a result set of
  one client whose status is \<^verbatim>\<open>active\<close> has one such record, and the component counts
  no active client in it.
\<close>

theorem clientes_estadisticas_counterexample:
  "calcularEstadisticas
     (inicial\<lparr>tipoReporte := ''clientes'', datosReporte := [[(''status'', JStr ''active'')]]\<rparr>)
   = Inr (inicial\<lparr>tipoReporte := ''clientes'',
        datosReporte := [[(''status'', JStr ''active'')]],
        estadisticasResumen :=
          [\<lparr>label = ''Total'', value' = 1\<rparr>,
           \<lparr>label = ''Activos'', value' = 0\<rparr>,
           \<lparr>label = ''Inactivos'', value' = 1\<rparr>]\<rparr>)
   \<and> length (filter (es_estado ''active'') [[(''status'', JStr ''active'')]]) = 1"
  by (simp add: calcularEstadisticas_def campo_es_def es_estado_def get_prop_def
      toLowerCase_def lower_char_def inicial_def)

subsection \<open>The status buckets of the orders\<close>

lemma buckets_disjoint:
  "set completados \<inter> set pendientes = {}"
  "set completados \<inter> set enProceso = {}"
  "set pendientes \<inter> set enProceso = {}"
  by (simp_all add: completados_def pendientes_def enProceso_def)

lemma status_en_exclusive:
  assumes "set a \<inter> set b = {}"
  shows "\<not> (status_en a r = Inr True \<and> status_en b r = Inr True)"
proof
  assume h: "status_en a r = Inr True \<and> status_en b r = Inr True"
  then obtain t where "get_prop r ''status'' = JStr t" "toLowerCase t \<in> set a"
    using status_en_True by blast
  moreover from h obtain u where "get_prop r ''status'' = JStr u" "toLowerCase u \<in> set b"
    using status_en_True by blast
  ultimately show False using assms by auto
qed

text \<open>
  C9. The three lists of status names of the orders statistics are pairwise disjoint and
  hold lower-case spellings only. So a record counts in at most one of the three
  buckets, and whenever the statistics of a result set under the category
  \<^verbatim>\<open>pedidos\<close> are computed, they are the total and the three counts, with
  \<^verbatim>\<open>Completados\<close> + \<^verbatim>\<open>En Proceso\<close> + \<^verbatim>\<open>Pendientes\<close> at most \<^verbatim>\<open>Total\<close>. They are
  computed on every result set whose statuses are strings, \<^verbatim>\<open>null\<close> or missing.
\<close>

theorem pedidos_buckets:
  "set completados \<inter> set pendientes = {}
   \<and> set completados \<inter> set enProceso = {}
   \<and> set pendientes \<inter> set enProceso = {}
   \<and> list_all (\<lambda>n. toLowerCase n = n) (completados @ pendientes @ enProceso)
   \<and> length (filter (\<lambda>b. b = Inr True)
        [status_en completados r, status_en enProceso r, status_en pendientes r]) \<le> 1
   \<and> (tipoReporte s = ''pedidos'' \<longrightarrow> calcularEstadisticas s = Inr s' \<longrightarrow>
        (\<exists>c e p. estadisticasResumen s' =
            [\<lparr>label = ''Total'', value' = int (length (datosReporte s))\<rparr>,
             \<lparr>label = ''Completados'', value' = c\<rparr>,
             \<lparr>label = ''En Proceso'', value' = e\<rparr>,
             \<lparr>label = ''Pendientes'', value' = p\<rparr>]
          \<and> c = int (length (filter (\<lambda>r. status_en completados r = Inr True) (datosReporte s)))
          \<and> e = int (length (filter (\<lambda>r. status_en enProceso r = Inr True) (datosReporte s)))
          \<and> p = int (length (filter (\<lambda>r. status_en pendientes r = Inr True) (datosReporte s)))
          \<and> c + e + p \<le> int (length (datosReporte s))))
   \<and> (tipoReporte s = ''pedidos'' \<longrightarrow> list_all (campo_texto ''status'') (datosReporte s) \<longrightarrow>
        (\<exists>s'. calcularEstadisticas s = Inr s'))"
proof -
  have low: "list_all (\<lambda>n. toLowerCase n = n) (completados @ pendientes @ enProceso)"
    by (simp add: completados_def pendientes_def enProceso_def toLowerCase_def lower_char_def)
  have one: "length (filter (\<lambda>b. b = Inr True)
        [status_en completados r, status_en enProceso r, status_en pendientes r]) \<le> 1"
    using status_en_exclusive [OF buckets_disjoint(1), of r]
      status_en_exclusive [OF buckets_disjoint(2), of r]
      status_en_exclusive [OF buckets_disjoint(3), of r]
    by auto
  have excl: "list_all (\<lambda>x.
        \<not> (status_en completados x = Inr True \<and> status_en enProceso x = Inr True)
      \<and> \<not> (status_en completados x = Inr True \<and> status_en pendientes x = Inr True)
      \<and> \<not> (status_en enProceso x = Inr True \<and> status_en pendientes x = Inr True)) xs" for xs
    using status_en_exclusive [OF buckets_disjoint(1)]
      status_en_exclusive [OF buckets_disjoint(2)]
      status_en_exclusive [OF buckets_disjoint(3)]
    by (auto simp: list_all_iff)
  have sum: "tipoReporte s = ''pedidos'' \<longrightarrow> calcularEstadisticas s = Inr s' \<longrightarrow>
        (\<exists>c e p. estadisticasResumen s' =
            [\<lparr>label = ''Total'', value' = int (length (datosReporte s))\<rparr>,
             \<lparr>label = ''Completados'', value' = c\<rparr>,
             \<lparr>label = ''En Proceso'', value' = e\<rparr>,
             \<lparr>label = ''Pendientes'', value' = p\<rparr>]
          \<and> c = int (length (filter (\<lambda>r. status_en completados r = Inr True) (datosReporte s)))
          \<and> e = int (length (filter (\<lambda>r. status_en enProceso r = Inr True) (datosReporte s)))
          \<and> p = int (length (filter (\<lambda>r. status_en pendientes r = Inr True) (datosReporte s)))
          \<and> c + e + p \<le> int (length (datosReporte s)))"
  proof (intro impI)
    assume t: "tipoReporte s = ''pedidos''" and r: "calcularEstadisticas s = Inr s'"
    from t r obtain cs ps es where
      cs: "filter_js (status_en completados) (datosReporte s) = Inr cs" and
      ps: "filter_js (status_en pendientes) (datosReporte s) = Inr ps" and
      es: "filter_js (status_en enProceso) (datosReporte s) = Inr es" and
      s': "s' = s\<lparr>estadisticasResumen :=
               [\<lparr>label = ''Total'', value' = int (length (datosReporte s))\<rparr>,
                \<lparr>label = ''Completados'', value' = int (length cs)\<rparr>,
                \<lparr>label = ''En Proceso'', value' = int (length es)\<rparr>,
                \<lparr>label = ''Pendientes'', value' = int (length ps)\<rparr>]\<rparr>"
      by (auto simp: calcularEstadisticas_def Let_def split: sum.splits)
    note f = filter_js_Inr [OF cs] filter_js_Inr [OF es] filter_js_Inr [OF ps]
    have "length cs + length es + length ps \<le> length (datosReporte s)"
      unfolding f by (rule three_filters) (rule excl)
    then have "int (length cs) + int (length es) + int (length ps) \<le> int (length (datosReporte s))"
      by linarith
    with s' f show "\<exists>c e p. estadisticasResumen s' =
            [\<lparr>label = ''Total'', value' = int (length (datosReporte s))\<rparr>,
             \<lparr>label = ''Completados'', value' = c\<rparr>,
             \<lparr>label = ''En Proceso'', value' = e\<rparr>,
             \<lparr>label = ''Pendientes'', value' = p\<rparr>]
          \<and> c = int (length (filter (\<lambda>r. status_en completados r = Inr True) (datosReporte s)))
          \<and> e = int (length (filter (\<lambda>r. status_en enProceso r = Inr True) (datosReporte s)))
          \<and> p = int (length (filter (\<lambda>r. status_en pendientes r = Inr True) (datosReporte s)))
          \<and> c + e + p \<le> int (length (datosReporte s))"
      by simp
  qed
  have tot: "tipoReporte s = ''pedidos'' \<longrightarrow> list_all (campo_texto ''status'') (datosReporte s) \<longrightarrow>
        (\<exists>s'. calcularEstadisticas s = Inr s')"
  proof (intro impI)
    assume t: "tipoReporte s = ''pedidos''" and a: "list_all (campo_texto ''status'') (datosReporte s)"
    have "\<exists>ys. filter_js (status_en n) (datosReporte s) = Inr ys" for n
    proof -
      have "list_all (\<lambda>r. status_en n r =
                Inr (case get_prop r ''status'' of JStr t \<Rightarrow> toLowerCase t \<in> set n
                     | _ \<Rightarrow> False)) (datosReporte s)"
        using a by (simp add: list_all_iff status_en_texto)
      from filter_js_total [OF this] show ?thesis by blast
    qed
    then obtain cs ps es where
      "filter_js (status_en completados) (datosReporte s) = Inr cs"
      "filter_js (status_en pendientes) (datosReporte s) = Inr ps"
      "filter_js (status_en enProceso) (datosReporte s) = Inr es"
      by blast
    with t show "\<exists>s'. calcularEstadisticas s = Inr s'"
      by (simp add: calcularEstadisticas_def Let_def)
  qed
  from buckets_disjoint low one sum tot show ?thesis by blast
qed

theorem pedidos_buckets_witness:
  "calcularEstadisticas
     (inicial\<lparr>tipoReporte := ''pedidos'',
        datosReporte := [[(''status'', JStr ''Entregado'')], [(''status'', JStr ''PENDING'')],
                         [(''status'', JStr ''in_transit'')], [(''status'', JStr ''cancelado'')],
                         [(''id'', JNum 9)]]\<rparr>)
   = Inr (inicial\<lparr>tipoReporte := ''pedidos'',
        datosReporte := [[(''status'', JStr ''Entregado'')], [(''status'', JStr ''PENDING'')],
                         [(''status'', JStr ''in_transit'')], [(''status'', JStr ''cancelado'')],
                         [(''id'', JNum 9)]],
        estadisticasResumen :=
          [\<lparr>label = ''Total'', value' = 5\<rparr>,
           \<lparr>label = ''Completados'', value' = 1\<rparr>,
           \<lparr>label = ''En Proceso'', value' = 1\<rparr>,
           \<lparr>label = ''Pendientes'', value' = 1\<rparr>]\<rparr>)
   \<and> (1::int) + 1 + 1 \<le> 5
   \<and> length (filter (\<lambda>b. b = Inr True)
        [status_en completados [(''status'', JStr ''Entregado'')],
         status_en enProceso [(''status'', JStr ''Entregado'')],
         status_en pendientes [(''status'', JStr ''Entregado'')]]) \<le> 1"
proof -
  let ?d = "[[(''status'', JStr ''Entregado'')], [(''status'', JStr ''PENDING'')],
             [(''status'', JStr ''in_transit'')], [(''status'', JStr ''cancelado'')],
             [(''id'', JNum 9)]]"
  let ?s = "inicial\<lparr>tipoReporte := ''pedidos'', datosReporte := ?d\<rparr>"
  have t: "tipoReporte ?s = ''pedidos''" by simp
  have a: "list_all (campo_texto ''status'') (datosReporte ?s)"
    by (simp add: campo_texto_def get_prop_def object_prototype_keys_def)
  from pedidos_buckets [of "[(''status'', JStr ''Entregado'')]" ?s] t a
  obtain s' where r: "calcularEstadisticas ?s = Inr s'"
    by blast
  from pedidos_buckets [of "[(''status'', JStr ''Entregado'')]" ?s s'] t r
  have one: "length (filter (\<lambda>b. b = Inr True)
        [status_en completados [(''status'', JStr ''Entregado'')],
         status_en enProceso [(''status'', JStr ''Entregado'')],
         status_en pendientes [(''status'', JStr ''Entregado'')]]) \<le> 1"
    and e: "estadisticasResumen s' =
        [\<lparr>label = ''Total'', value' = int (length (datosReporte ?s))\<rparr>,
         \<lparr>label = ''Completados'',
          value' = int (length (filter (\<lambda>r. status_en completados r = Inr True) (datosReporte ?s)))\<rparr>,
         \<lparr>label = ''En Proceso'',
          value' = int (length (filter (\<lambda>r. status_en enProceso r = Inr True) (datosReporte ?s)))\<rparr>,
         \<lparr>label = ''Pendientes'',
          value' = int (length (filter (\<lambda>r. status_en pendientes r = Inr True) (datosReporte ?s)))\<rparr>]"
    by auto
  have v: "calcularEstadisticas ?s = Inr (?s\<lparr>estadisticasResumen :=
          [\<lparr>label = ''Total'', value' = 5\<rparr>,
           \<lparr>label = ''Completados'', value' = 1\<rparr>,
           \<lparr>label = ''En Proceso'', value' = 1\<rparr>,
           \<lparr>label = ''Pendientes'', value' = 1\<rparr>]\<rparr>)"
    by (simp add: calcularEstadisticas_def status_en_def get_prop_def object_prototype_keys_def
        toLowerCase_def lower_char_def completados_def pendientes_def enProceso_def)
  from v one show ?thesis by simp
qed

subsection \<open>A filter that leaves no row\<close>

lemma filtrar_loading:
  "generarReporte_filtrar (s\<lparr>loading := b\<rparr>) d = generarReporte_filtrar s d"
  by (simp add: generarReporte_filtrar_def Let_def split: sum.splits)

lemma filtrar_identity:
  assumes "tipoReporte s \<noteq> ''clientes''" and "tipoReporte s \<noteq> ''pedidos''"
    and "tipoReporte s \<noteq> ''vehiculos''"
  shows "generarReporte_filtrar s d = Inr d"
  using assms by (simp add: generarReporte_filtrar_def)

lemma estadisticas_empty_clientes:
  assumes "datosReporte s = []" and "tipoReporte s = ''clientes''"
  shows "calcularEstadisticas s =
           Inr (s\<lparr>estadisticasResumen :=
             [\<lparr>label = ''Total'', value' = 0\<rparr>, \<lparr>label = ''Activos'', value' = 0\<rparr>,
              \<lparr>label = ''Inactivos'', value' = 0\<rparr>]\<rparr>)"
  using assms by (simp add: calcularEstadisticas_def)

lemma estadisticas_empty_pedidos:
  assumes "datosReporte s = []" and "tipoReporte s = ''pedidos''"
  shows "calcularEstadisticas s =
           Inr (s\<lparr>estadisticasResumen :=
             [\<lparr>label = ''Total'', value' = 0\<rparr>, \<lparr>label = ''Completados'', value' = 0\<rparr>,
              \<lparr>label = ''En Proceso'', value' = 0\<rparr>,
              \<lparr>label = ''Pendientes'', value' = 0\<rparr>]\<rparr>)"
  using assms by (simp add: calcularEstadisticas_def)

lemma estadisticas_empty_vehiculos:
  assumes "datosReporte s = []" and "tipoReporte s = ''vehiculos''"
  shows "calcularEstadisticas s =
           Inr (s\<lparr>estadisticasResumen :=
             [\<lparr>label = ''Total'', value' = 0\<rparr>, \<lparr>label = ''Disponibles'', value' = 0\<rparr>,
              \<lparr>label = ''No Disponibles'', value' = 0\<rparr>]\<rparr>)"
  using assms by (simp add: calcularEstadisticas_def)

lemma estadisticas_empty:
  assumes "datosReporte s = []"
    and "tipoReporte s = ''clientes'' \<or> tipoReporte s = ''pedidos'' \<or> tipoReporte s = ''vehiculos''"
  shows "\<exists>e. calcularEstadisticas s = Inr (s\<lparr>estadisticasResumen := e\<rparr>)
           \<and> e \<noteq> [] \<and> list_all (\<lambda>x. value' x = 0) e"
proof -
  from assms(2) consider "tipoReporte s = ''clientes''" | "tipoReporte s = ''pedidos''"
    | "tipoReporte s = ''vehiculos''"
    by blast
  then show ?thesis
  proof cases
    case 1
    from estadisticas_empty_clientes [OF assms(1) 1] show ?thesis
      by (intro exI [of _ "[\<lparr>label = ''Total'', value' = 0\<rparr>, \<lparr>label = ''Activos'', value' = 0\<rparr>,
              \<lparr>label = ''Inactivos'', value' = 0\<rparr>]"]) simp
  next
    case 2
    from estadisticas_empty_pedidos [OF assms(1) 2] show ?thesis
      by (intro exI [of _ "[\<lparr>label = ''Total'', value' = 0\<rparr>, \<lparr>label = ''Completados'', value' = 0\<rparr>,
              \<lparr>label = ''En Proceso'', value' = 0\<rparr>,
              \<lparr>label = ''Pendientes'', value' = 0\<rparr>]"]) simp
  next
    case 3
    from estadisticas_empty_vehiculos [OF assms(1) 3] show ?thesis
      by (intro exI [of _ "[\<lparr>label = ''Total'', value' = 0\<rparr>, \<lparr>label = ''Disponibles'', value' = 0\<rparr>,
              \<lparr>label = ''No Disponibles'', value' = 0\<rparr>]"]) simp
  qed
qed

text \<open>
  C5. When the request succeeds with a body that is not empty and the filter of the
  category leaves no row of it, the callback ends without raising: loading is false, the
  result set is empty, the statistics are those computed on the empty result set (every
  value is 0), the message is \<^verbatim>\<open>No hay resultados con los filtros aplicados\<close>, and
  one timer of 3000 ms is set whose callback, when it runs, sets the message to
  \<^verbatim>\<open>null\<close> and changes nothing else.
\<close>

theorem generarReporte_empty_after_filter:
  assumes "d \<noteq> []" and "generarReporte_filtrar s d = Inr []"
  shows "\<exists>s3. calcularEstadisticas (s\<lparr>loading := False, datosReporte := []\<rparr>) = Inr s3
           \<and> generarReporte_respuesta (Cuerpo (Some d)) s =
               Inr (s3\<lparr>error := Some ''No hay resultados con los filtros aplicados''\<rparr>,
                    [SetTimeout BorrarError 3000])
           \<and> loading s3 = False
           \<and> datosReporte s3 = []
           \<and> estadisticasResumen s3 \<noteq> []
           \<and> list_all (\<lambda>x. value' x = 0) (estadisticasResumen s3)
           \<and> ejecutar BorrarError
                (s3\<lparr>error := Some ''No hay resultados con los filtros aplicados''\<rparr>)
               = s3\<lparr>error := None\<rparr>"
proof -
  let ?s2 = "s\<lparr>loading := False, datosReporte := []\<rparr>"
  have cat: "tipoReporte s = ''clientes'' \<or> tipoReporte s = ''pedidos''
               \<or> tipoReporte s = ''vehiculos''"
  proof (rule ccontr)
    assume "\<not> ?thesis"
    then have "generarReporte_filtrar s d = Inr d"
      by (simp add: filtrar_identity)
    with assms show False by simp
  qed
  then obtain e where e: "calcularEstadisticas ?s2 = Inr (?s2\<lparr>estadisticasResumen := e\<rparr>)"
      "e \<noteq> []" "list_all (\<lambda>x. value' x = 0) e"
    using estadisticas_empty [of ?s2] by auto
  have "generarReporte_respuesta (Cuerpo (Some d)) s =
          Inr (?s2\<lparr>estadisticasResumen := e,
                  error := Some ''No hay resultados con los filtros aplicados''\<rparr>,
               [SetTimeout BorrarError 3000])"
    using assms e(1) by (simp add: generarReporte_subscribe_def filtrar_loading)
  with e show ?thesis by simp
qed

theorem generarReporte_empty_after_filter_witness:
  "generarReporte_respuesta
     (Cuerpo (Some [[(''status'', JStr ''Activo'')], [(''status'', JStr ''activo'')]]))
     (inicial\<lparr>tipoReporte := ''clientes'', loading := True,
        filtros := sin_filtros\<lparr>estado := ''Inactivo''\<rparr>\<rparr>)
   = Inr (inicial\<lparr>tipoReporte := ''clientes'', loading := False,
        filtros := sin_filtros\<lparr>estado := ''Inactivo''\<rparr>,
        estadisticasResumen :=
          [\<lparr>label = ''Total'', value' = 0\<rparr>, \<lparr>label = ''Activos'', value' = 0\<rparr>,
           \<lparr>label = ''Inactivos'', value' = 0\<rparr>],
        error := Some ''No hay resultados con los filtros aplicados''\<rparr>,
      [SetTimeout BorrarError 3000])"
proof -
  let ?d = "[[(''status'', JStr ''Activo'')], [(''status'', JStr ''activo'')]]"
  let ?s = "inicial\<lparr>tipoReporte := ''clientes'', loading := True,
        filtros := sin_filtros\<lparr>estado := ''Inactivo''\<rparr>\<rparr>"
  have a: "?d \<noteq> []" by simp
  have b: "generarReporte_filtrar ?s ?d = Inr []"
    by (simp add: generarReporte_filtrar_def campo_es_def get_prop_def toLowerCase_def
        lower_char_def sin_filtros_def)
  have c: "calcularEstadisticas (?s\<lparr>loading := False, datosReporte := []\<rparr>)
      = Inr (?s\<lparr>loading := False, datosReporte := [], estadisticasResumen :=
          [\<lparr>label = ''Total'', value' = 0\<rparr>, \<lparr>label = ''Activos'', value' = 0\<rparr>,
           \<lparr>label = ''Inactivos'', value' = 0\<rparr>]\<rparr>)"
    by (simp add: calcularEstadisticas_def)
  from generarReporte_empty_after_filter [OF a b] c show ?thesis
    by (auto simp: inicial_def)
qed

subsection \<open>The value of a cell\<close>

text \<open>
  C4 fails on the code: under the keys \<^verbatim>\<open>status\<close> and \<^verbatim>\<open>priority\<close>,
  \<^verbatim>\<open>getColumnValue\<close> calls \<^verbatim>\<open>value?.toLowerCase()\<close> on a value that is already
  known not to be \<^verbatim>\<open>null\<close>, so a number, a boolean or a nested object there raises
  a \<^verbatim>\<open>TypeError\<close>, on every host.
\<close>

theorem getColumnValue_raises:
  "getColumnValue P [(''status'', JNum 1)] ''status'' = Inl TypeError
   \<and> getColumnValue P [(''priority'', JBool True)] ''priority'' = Inl TypeError
   \<and> getColumnValue P [(''status'', JObj [(''code'', JStr ''A'')])] ''status'' = Inl TypeError"
  by (simp add: getColumnValue_def get_prop_def etiqueta_def)

theorem getColumnValue_raises_witness:
  "getColumnValue plataforma_ejemplo [(''status'', JNum 1)] ''status'' = Inl TypeError"
  using getColumnValue_raises [of plataforma_ejemplo] by simp

text \<open>
  Everywhere else the function returns: under any other key, and under these two when
  the value is a string, \<^verbatim>\<open>null\<close> or missing.
\<close>

lemma etiqueta_texto: "\<exists>w. etiqueta tabla (JStr t) = Inr w"
  by (cases "get_prop tabla (toLowerCase t)") (simp_all add: etiqueta_def)

lemma getColumnValue_returns:
  assumes "(k \<noteq> ''status'' \<and> k \<noteq> ''priority'') \<or> campo_texto k item"
  shows "\<exists>v. getColumnValue P item k = Inr v"
proof (cases "get_prop item k = JNull \<or> get_prop item k = JUndefined")
  case True
  then show ?thesis by (auto simp: getColumnValue_def)
next
  case nn: False
  show ?thesis
  proof (cases "includes_str k ''date'' \<or> includes_str k ''_at''")
    case True
    with nn show ?thesis
      by (cases "newDate P (get_prop item k)") (simp_all add: getColumnValue_def)
  next
    case nd: False
    show ?thesis
    proof (cases "k = ''status'' \<or> k = ''priority''")
      case True
      with assms have "campo_texto k item" by blast
      with nn obtain t where t: "get_prop item k = JStr t"
        by (cases "get_prop item k") (simp_all add: campo_texto_def)
      from True nn nd t etiqueta_texto [of statusMap t] etiqueta_texto [of priorityMap t]
      show ?thesis by (auto simp: getColumnValue_def)
    next
      case False
      with nn nd show ?thesis
        by (cases "get_prop item k") (simp_all add: getColumnValue_def Let_def)
    qed
  qed
qed

text \<open>
  Under a key that contains \<^verbatim>\<open>date\<close> or \<^verbatim>\<open>_at\<close>, for a value that is neither
  \<^verbatim>\<open>null\<close> nor missing: when the value parses as a timestamp the cell is its
  rendering in the es-CO format, and when building the timestamp raises, the
  \<^verbatim>\<open>catch\<close> of line 272 returns the raw value.
\<close>

lemma getColumnValue_date:
  assumes "includes_str k ''date'' \<or> includes_str k ''_at''"
    and "get_prop item k \<noteq> JNull" and "get_prop item k \<noteq> JUndefined"
  shows "(newDate P (get_prop item k) = ValidDate t \<longrightarrow>
            getColumnValue P item k = Inr (JStr (fecha_esCO P t)))
       \<and> (newDate P (get_prop item k) = DateThrows \<longrightarrow>
            getColumnValue P item k = Inr (get_prop item k))"
  using assms by (simp add: getColumnValue_def Let_def)

text \<open>
  C8 fails on the code. Under a key that contains \<^verbatim>\<open>date\<close> or \<^verbatim>\<open>_at\<close>, a value
  that does not parse as a timestamp is not returned unchanged: \<^verbatim>\<open>new Date\<close> raises
  nothing on it and gives the invalid date, whose rendering is the text
  \<^verbatim>\<open>Invalid Date\<close>, so the \<^verbatim>\<open>catch\<close> of line 272 that returns the raw value is
  not reached and the cell is \<^verbatim>\<open>Invalid Date\<close>, on every host.
\<close>

theorem getColumnValue_invalid_date:
  assumes "includes_str k ''date'' \<or> includes_str k ''_at''"
    and "get_prop item k \<noteq> JNull" and "get_prop item k \<noteq> JUndefined"
    and "newDate P (get_prop item k) = InvalidDate"
  shows "getColumnValue P item k = Inr (JStr ''Invalid Date'')"
  using assms by (simp add: getColumnValue_def Let_def)

theorem getColumnValue_invalid_date_witness:
  "newDate plataforma_ejemplo (JStr ''no es fecha'') = InvalidDate
   \<and> getColumnValue plataforma_ejemplo
        [(''id'', JNum 3), (''created_at'', JStr ''no es fecha'')] ''created_at''
       = Inr (JStr ''Invalid Date'')
   \<and> JStr ''Invalid Date'' \<noteq> JStr ''no es fecha''"
proof -
  let ?a = "[(''id'', JNum 3), (''created_at'', JStr ''no es fecha'')]"
  have k: "includes_str ''created_at'' ''date'' \<or> includes_str ''created_at'' ''_at''"
    by simp
  have v: "get_prop ?a ''created_at'' = JStr ''no es fecha''"
    by (simp add: get_prop_def)
  have n: "get_prop ?a ''created_at'' \<noteq> JNull" "get_prop ?a ''created_at'' \<noteq> JUndefined"
    by (simp_all add: v)
  have d: "newDate plataforma_ejemplo (JStr ''no es fecha'') = InvalidDate"
    by (simp add: plataforma_ejemplo_def)
  then have i: "newDate plataforma_ejemplo (get_prop ?a ''created_at'') = InvalidDate"
    by (simp add: v)
  show ?thesis
    using getColumnValue_invalid_date [OF k n i] d by simp
qed

subsection \<open>Worked examples\<close>

text \<open>
  The examples of the specification, evaluated on the model: the default driver, the
  clients with the status filter \<^verbatim>\<open>activo\<close>, and a request that cannot reach the
  server.
\<close>

lemma ejemplo_conductores:
  "snd (generarReporte (inicial\<lparr>tipoReporte := ''conductores''\<rparr>))
     = [HttpGet ''http://localhost:8000/api/v1/reports/routes-completed-by-driver/1'' []]"
  by (simp add: generarReporte_def generarReporte_consulta_def inicial_def sin_filtros_def
      apiUrl_def)

lemma ejemplo_clientes_activos:
  "generarReporte_respuesta
     (Cuerpo (Some [[(''status'', JStr ''Activo'')], [(''status'', JStr ''activo'')],
                    [(''status'', JStr ''Inactivo'')]]))
     (inicial\<lparr>tipoReporte := ''clientes'', loading := True,
        filtros := sin_filtros\<lparr>estado := ''activo''\<rparr>\<rparr>)
   = Inr (inicial\<lparr>tipoReporte := ''clientes'', loading := False,
        filtros := sin_filtros\<lparr>estado := ''activo''\<rparr>,
        datosReporte := [[(''status'', JStr ''Activo'')], [(''status'', JStr ''activo'')]],
        estadisticasResumen :=
          [\<lparr>label = ''Total'', value' = 2\<rparr>, \<lparr>label = ''Activos'', value' = 2\<rparr>,
           \<lparr>label = ''Inactivos'', value' = 0\<rparr>]\<rparr>,
      [])"
  by (simp add: generarReporte_subscribe_def generarReporte_filtrar_def
      calcularEstadisticas_def campo_es_def get_prop_def toLowerCase_def lower_char_def
      inicial_def sin_filtros_def)

lemma ejemplo_sin_conexion:
  "generarReporte_respuesta (Falla \<lparr>status = 0, detail = [], message = ''Unknown Error''\<rparr>)
     (inicial\<lparr>tipoReporte := ''vehiculos'', loading := True\<rparr>)
   = Inr (inicial\<lparr>tipoReporte := ''vehiculos'', loading := False,
        error := Some mensaje_sin_conexion,
        estadisticasResumen :=
          [\<lparr>label = ''Total'', value' = 0\<rparr>, \<lparr>label = ''Disponibles'', value' = 0\<rparr>,
           \<lparr>label = ''No Disponibles'', value' = 0\<rparr>]\<rparr>,
      [])"
  by (simp add: generarReporte_catchError_def generarReporte_subscribe_def
      generarReporte_filtrar_def calcularEstadisticas_def inicial_def sin_filtros_def)

lemma ejemplo_csv:
  "exportarExcel plataforma_ejemplo
     (inicial\<lparr>tipoReporte := ''clientes'', tituloReporte := ''Reporte de Clientes'',
        datosReporte := [[(''name'', JStr ''Ana, SA''), (''status'', JStr ''ACTIVO'')],
                         [(''name'', JStr ''Luis''), (''status'', JNull)]]\<rparr>)
   = (inicial\<lparr>tipoReporte := ''clientes'', tituloReporte := ''Reporte de Clientes'',
        datosReporte := [[(''name'', JStr ''Ana, SA''), (''status'', JStr ''ACTIVO'')],
                         [(''name'', JStr ''Luis''), (''status'', JNull)]]\<rparr>,
      [Descarga ''Reporte de Clientes_2024-01-15.csv''
         ([CHR 0xEF, CHR 0xBB, CHR 0xBF] @ ''Nombre,Estado'' @ [CHR 0x0A]
            @ ''\"Ana, SA\",Activo'' @ [CHR 0x0A] @ ''Luis,-'')])"
  by (simp add: exportarExcel_def csvContent_def celda_def getColumnKeys_def
      getColumnValue_def formatColumnName_def etiqueta_def get_prop_def translations'_def
      statusMap_def object_prototype_keys_def toLowerCase_def lower_char_def
      plataforma_ejemplo_def inicial_def)

end
